theory Spec2Isabelle
  imports Complex_Main "HOL-Library.Sublist"
begin

section \<open>Python values, dictionaries and errors\<close>

text \<open>
  Both scripts pass around Python strings, \<open>None\<close> and dictionaries keyed by strings.
  A string is a \<open>string\<close>: the list of the bytes of its UTF-8 form. A Python string may
  also hold a lone surrogate code point (\<open>json.loads\<close> gives one for \<open>"\ud800"\<close>, and
  surrogate-escaped bytes are such code points); it is written as its three bytes
  \<open>ED A0..BF xx\<close>, as the \<open>surrogatepass\<close> handler does. Every other Python object a
  dictionary may hold (a number, a list, a nested dictionary decoded from JSON, the list of
  sub-messages of a multipart email, an \<open>email.header.Header\<close>) is kept opaque as
  \<open>PObj\<close>; \<open>str()\<close> of such an object is the parameter \<open>str_obj\<close> of the functions that
  format values.
\<close>

datatype 'o pyval = PNone | PStr string | PObj 'o

type_synonym 'o dict = "string \<rightharpoonup> 'o pyval"

datatype error =
  KeyError string | RequestException | JSONDecodeError | AgentError | ZeroDivisionError
  | UnicodeEncodeError | TypeError

text \<open>\<open>str(v)\<close>, as an f-string applies it to a replacement field.\<close>

definition py_str :: "('o \<Rightarrow> string) \<Rightarrow> 'o pyval \<Rightarrow> string" where
  "py_str str_obj v = (case v of PNone \<Rightarrow> ''None'' | PStr s \<Rightarrow> s | PObj x \<Rightarrow> str_obj x)"

text \<open>\<open>d[k]\<close> raises \<open>KeyError(k)\<close> on a missing key.\<close>

definition getitem :: "'o dict \<Rightarrow> string \<Rightarrow> error + 'o pyval" where
  "getitem d k = (case d k of None \<Rightarrow> Inl (KeyError k) | Some v \<Rightarrow> Inr v)"

text \<open>\<open>d.get(k, default)\<close> and \<open>d.get(k)\<close>, whose default is \<open>None\<close>.\<close>

definition dict_get_default :: "'o dict \<Rightarrow> string \<Rightarrow> 'o pyval \<Rightarrow> 'o pyval" where
  "dict_get_default d k dflt = (case d k of None \<Rightarrow> dflt | Some v \<Rightarrow> v)"

definition dict_get :: "'o dict \<Rightarrow> string \<Rightarrow> 'o pyval" where
  "dict_get d k = dict_get_default d k PNone"

subsection \<open>Standard output\<close>

text \<open>
  \<open>print(line)\<close> can raise: \<open>UnicodeEncodeError\<close> when the encoding of standard output
  cannot encode the text, or an error of the stream itself. It is a parameter of every
  function that prints: \<open>print line\<close> is \<open>Inr ()\<close> when the line is written and \<open>Inl e\<close>
  when the call raises \<open>e\<close>. \<open>print_line\<close> returns the line written.
\<close>

definition print_line :: "(string \<Rightarrow> error + unit) \<Rightarrow> string \<Rightarrow> error + string list" where
  "print_line print line = (case print line of Inl e \<Rightarrow> Inl e | Inr u \<Rightarrow> Inr [line])"

text \<open>
  Whether a string holds a surrogate code point: the byte \<open>ED\<close> followed by a byte from
  \<open>A0\<close> on. This is when \<open>s.encode()\<close> raises, which is also the test
  \<open>email.utils._has_surrogates\<close> makes.
\<close>

fun has_surrogates :: "string \<Rightarrow> bool" where
  "has_surrogates (c # d # cs) =
     ((c = CHR 0xED \<and> (0xA0 :: nat) \<le> of_char d) \<or> has_surrogates (d # cs))"
| "has_surrogates cs = False"

text \<open>
  Two ways standard output can be set up: encoded as UTF-8, which encodes every text
  without surrogates, and as ASCII (\<open>PYTHONIOENCODING=ascii\<close>), which encodes the
  code points below 128 only. Both use the default error handler \<open>strict\<close>.
\<close>

definition print_utf8 :: "string \<Rightarrow> error + unit" where
  "print_utf8 line = (if has_surrogates line then Inl UnicodeEncodeError else Inr ())"

definition print_ascii :: "string \<Rightarrow> error + unit" where
  "print_ascii line =
     (if list_all (\<lambda>c. of_char c < (128 :: nat)) line then Inr () else Inl UnicodeEncodeError)"

subsection \<open>Python floats\<close>

text \<open>
  A Python \<open>float\<close> is an IEEE 754 binary64 number: a sign bit and a magnitude, an
  infinity, or a NaN. \<open>PFin s q\<close> is the finite number with sign bit \<open>s\<close> (\<open>True\<close>
  for negative) and magnitude \<open>q \<ge> 0\<close>, a rational that binary64 can represent;
  \<open>PFin False 100\<close> is \<open>100.0\<close>. Every operation computes the exact rational result
  and rounds it to the nearest representable number, ties to even.
\<close>

datatype pyfloat = PFin bool rat | PInf bool | PNan

definition pow :: "nat \<Rightarrow> int \<Rightarrow> rat" where
  "pow b e = (if 0 \<le> e then of_nat b ^ nat e else 1 / of_nat b ^ nat (- e))"

text \<open>The number of base-\<open>b\<close> digits of \<open>n\<close>, and the floor of \<open>log\<^sub>b q\<close> for \<open>q > 0\<close>.\<close>

fun ndigits :: "nat \<Rightarrow> nat \<Rightarrow> nat" where
  "ndigits b n = (if n = 0 \<or> b < 2 then 0 else Suc (ndigits b (n div b)))"

definition ilog :: "nat \<Rightarrow> rat \<Rightarrow> int" where
  "ilog b q =
     (if 1 \<le> q then int (ndigits b (nat \<lfloor>q\<rfloor>)) - 1
      else let r = 1 / q; l = int (ndigits b (nat \<lfloor>r\<rfloor>)) - 1
           in if r = pow b l then - l else - (l + 1))"

definition round_half_even :: "rat \<Rightarrow> int" where
  "round_half_even q =
     (let f = \<lfloor>q\<rfloor>; r = q - of_int f
      in if r < 1 / 2 then f else if 1 / 2 < r then f + 1 else if even f then f else f + 1)"

text \<open>
  Rounding a magnitude \<open>q \<ge> 0\<close> to binary64. The significand has 53 bits, so the unit
  in the last place is \<open>2 ^ (e - 52)\<close> for \<open>2 ^ e \<le> q < 2 ^ (e + 1)\<close>, and never below
  \<open>2 ^ -1074\<close> (subnormal numbers). A result of \<open>2 ^ 1024\<close> or more overflows to
  infinity; a result of zero keeps the sign.
\<close>

definition round_double :: "bool \<Rightarrow> rat \<Rightarrow> pyfloat" where
  "round_double s q =
     (if q = 0 then PFin s 0
      else let u = max (ilog 2 q) (- 1022) - 52;
               r = of_int (round_half_even (q / pow 2 u)) * pow 2 u
           in if pow 2 1024 \<le> r then PInf s else PFin s r)"

text \<open>\<open>x * y\<close>, \<open>x + y\<close> and \<open>x / y\<close> on floats. Only division raises, on a zero divisor.\<close>

fun float_mul :: "pyfloat \<Rightarrow> pyfloat \<Rightarrow> pyfloat" where
  "float_mul (PFin s p) (PFin t q) = round_double (s \<noteq> t) (p * q)"
| "float_mul (PFin s p) (PInf t) = (if p = 0 then PNan else PInf (s \<noteq> t))"
| "float_mul (PInf s) (PFin t q) = (if q = 0 then PNan else PInf (s \<noteq> t))"
| "float_mul (PInf s) (PInf t) = PInf (s \<noteq> t)"
| "float_mul PNan y = PNan"
| "float_mul x PNan = PNan"

definition signed :: "bool \<Rightarrow> rat \<Rightarrow> rat" where
  "signed s q = (if s then - q else q)"

fun float_add :: "pyfloat \<Rightarrow> pyfloat \<Rightarrow> pyfloat" where
  "float_add (PFin s p) (PFin t q) =
     (let v = signed s p + signed t q
      in if v = 0 then PFin (s \<and> t) 0 else round_double (v < 0) \<bar>v\<bar>)"
| "float_add (PFin s p) (PInf t) = PInf t"
| "float_add (PInf s) (PFin t q) = PInf s"
| "float_add (PInf s) (PInf t) = (if s = t then PInf s else PNan)"
| "float_add PNan y = PNan"
| "float_add x PNan = PNan"

fun float_truediv :: "pyfloat \<Rightarrow> pyfloat \<Rightarrow> error + pyfloat" where
  "float_truediv x (PFin t q) =
     (if q = 0 then Inl ZeroDivisionError
      else case x of
             PFin s p \<Rightarrow> Inr (round_double (s \<noteq> t) (p / q))
           | PInf s \<Rightarrow> Inr (PInf (s \<noteq> t))
           | PNan \<Rightarrow> Inr PNan)"
| "float_truediv x (PInf t) =
     (case x of PFin s p \<Rightarrow> Inr (PFin (s \<noteq> t) 0) | PInf s \<Rightarrow> Inr PNan | PNan \<Rightarrow> Inr PNan)"
| "float_truediv x PNan = Inr PNan"

subsection \<open>Formatting floats\<close>

definition digit_char :: "nat \<Rightarrow> char" where
  "digit_char d = ''0123456789'' ! d"

fun nat_digits :: "nat \<Rightarrow> string" where
  "nat_digits n = (if n < 10 then [digit_char n] else nat_digits (n div 10) @ [digit_char (n mod 10)])"

definition sign_str :: "bool \<Rightarrow> string" where
  "sign_str s = (if s then ''-'' else '''')"

text \<open>
  The format specification \<open>.2f\<close>: the exact value rounded to two decimals, ties to
  even, with the sign of the float (so \<open>-0.001\<close> prints as \<open>-0.00\<close>).
\<close>

definition format_2f :: "pyfloat \<Rightarrow> string" where
  "format_2f x =
     (case x of
        PNan \<Rightarrow> ''nan''
      | PInf s \<Rightarrow> sign_str s @ ''inf''
      | PFin s q \<Rightarrow>
          (let n = nat (round_half_even (q * 100))
           in sign_str s @ nat_digits (n div 100) @ ''.''
              @ [digit_char (n mod 100 div 10), digit_char (n mod 10)]))"

text \<open>
  \<open>str(x)\<close>, which a replacement field without a format specification uses, is
  \<open>repr(x)\<close>: the shortest decimal digits that round back to \<open>x\<close> and, among those,
  the closest to \<open>x\<close>. \<open>candidate q n\<close> looks for such a decimal \<open>c * 10 ^ x\<close> with \<open>n\<close>
  significant digits: it can only be the one just below or just above \<open>q\<close>.
  \<open>shortest\<close> tries the precisions in turn; 17 digits always suffice.
\<close>

definition candidate :: "rat \<Rightarrow> nat \<Rightarrow> (int \<times> int) option" where
  "candidate q n =
     (let x = ilog 10 q + 1 - int n;
          lo = \<lfloor>q / pow 10 x\<rfloor>;
          hi = lo + 1;
          ok_lo = (round_double False (of_int lo * pow 10 x) = PFin False q);
          ok_hi = (round_double False (of_int hi * pow 10 x) = PFin False q)
      in if ok_lo \<and> ok_hi then Some (round_half_even (q / pow 10 x), x)
         else if ok_lo then Some (lo, x)
         else if ok_hi then Some (hi, x)
         else None)"

fun shortest :: "rat \<Rightarrow> nat list \<Rightarrow> int \<times> int" where
  "shortest q [] = (round_half_even (q / pow 10 (ilog 10 q - 16)), ilog 10 q - 16)"
| "shortest q (n # ns) = (case candidate q n of Some c \<Rightarrow> c | None \<Rightarrow> shortest q ns)"

definition strip_zeros :: "string \<Rightarrow> string" where
  "strip_zeros ds = rev (dropWhile (\<lambda>c. c = CHR ''0'') (rev ds))"

text \<open>
  The layout of the digits \<open>ds\<close> of \<open>0.ds * 10 ^ decpt\<close>: exponent notation when
  \<open>decpt \<le> -4\<close> or \<open>decpt > 16\<close>, positional notation with at least one decimal
  otherwise.
\<close>

definition repr_layout :: "string \<Rightarrow> int \<Rightarrow> string" where
  "repr_layout ds decpt =
     (if decpt \<le> - 4 \<or> 16 < decpt then
        (let e = decpt - 1; es = nat_digits (nat \<bar>e\<bar>)
         in take 1 ds @ (if 1 < length ds then ''.'' @ drop 1 ds else '''')
            @ ''e'' @ (if e < 0 then ''-'' else ''+'')
            @ (if length es < 2 then ''0'' @ es else es))
      else if decpt \<le> 0 then ''0.'' @ replicate (nat (- decpt)) (CHR ''0'') @ ds
      else if int (length ds) \<le> decpt then
        ds @ replicate (nat decpt - length ds) (CHR ''0'') @ ''.0''
      else take (nat decpt) ds @ ''.'' @ drop (nat decpt) ds)"

definition float_str :: "pyfloat \<Rightarrow> string" where
  "float_str x =
     (case x of
        PNan \<Rightarrow> ''nan''
      | PInf s \<Rightarrow> sign_str s @ ''inf''
      | PFin s q \<Rightarrow>
          (if q = 0 then sign_str s @ ''0.0''
           else let (c, x) = shortest q [1 ..< 18];
                    ds = nat_digits (nat c)
                in sign_str s @ repr_layout (strip_zeros ds) (x + int (length ds))))"

section \<open>script/email-router.py\<close>

subsection \<open>The parser\<close>

text \<open>
  \<open>message_from_string\<close> is the standard library's parser, with its default
  (\<open>compat32\<close>) policy. It is a parameter here: it maps the raw text to a \<open>Message\<close>
  (or raises, should it ever). A \<open>Message\<close> holds the headers the parser recognised, in
  order, as (name, value) pairs, and what its method \<open>get_payload()\<close> does: it returns
  the payload (the rest of the text, or an opaque list of parts for a multipart message)
  or raises, as it does with \<open>TypeError\<close> for a payload with surrogate-escaped bytes under
  an RFC 2231 \<open>charset*=\<close> parameter. The timestamp \<open>datetime.now().isoformat()\<close> is the
  parameter \<open>now\<close>.
\<close>

record 'o message =
  msg_headers :: "(string \<times> string) list"
  get_payload :: "error + 'o pyval"

text \<open>
  \<open>str.lower()\<close> on header names. The parser only accepts printable ASCII in a header
  name, and the names looked up are ASCII, so lower-casing the letters A to Z is exact.
\<close>

definition lower_char :: "char \<Rightarrow> char" where
  "lower_char c =
     (case map_of (zip ''ABCDEFGHIJKLMNOPQRSTUVWXYZ'' ''abcdefghijklmnopqrstuvwxyz'') c of
        None \<Rightarrow> c
      | Some l \<Rightarrow> l)"

definition str_lower :: "string \<Rightarrow> string" where
  "str_lower s = map lower_char s"

text \<open>
  The policy's \<open>header_fetch_parse(name, value)\<close>: a value with surrogate-escaped bytes
  is returned as the object \<open>Header(value, charset=UNKNOWN8BIT, header_name=name)\<close>, any
  other value as the string it is. The constructor is the parameter \<open>Header\<close>.
\<close>

definition header_fetch_parse :: "(string \<Rightarrow> string \<Rightarrow> 'o) \<Rightarrow> string \<Rightarrow> string \<Rightarrow> 'o pyval" where
  "header_fetch_parse Header name v =
     (if has_surrogates v then PObj (Header name v) else PStr v)"

text \<open>
  \<open>Message.get(name, failobj)\<close> walks the headers and returns
  \<open>header_fetch_parse(k, v)\<close> for the first one whose lower-cased name is \<open>name\<close>
  (already lower-cased by the caller), else \<open>failobj\<close>. \<open>msg[name]\<close> is \<open>msg.get(name)\<close>:
  a missing header gives \<open>None\<close>, never \<open>KeyError\<close>.
\<close>

fun message_get ::
    "(string \<Rightarrow> string \<Rightarrow> 'o) \<Rightarrow> (string \<times> string) list \<Rightarrow> string \<Rightarrow> 'o pyval \<Rightarrow> 'o pyval" where
  "message_get Header [] name failobj = failobj"
| "message_get Header ((k, v) # hs) name failobj =
     (if str_lower k = name then header_fetch_parse Header k v
      else message_get Header hs name failobj)"

definition message_getitem :: "(string \<Rightarrow> string \<Rightarrow> 'o) \<Rightarrow> 'o message \<Rightarrow> string \<Rightarrow> 'o pyval" where
  "message_getitem Header msg name = message_get Header (msg_headers msg) (str_lower name) PNone"

definition header_names :: "'o message \<Rightarrow> string list" where
  "header_names msg = map (\<lambda>(k, v). str_lower k) (msg_headers msg)"

text \<open>
  The dictionary display evaluates \<open>msg['From']\<close>, \<open>msg['To']\<close>, \<open>msg['Subject']\<close>, then
  \<open>msg.get_payload()\<close>, then the timestamp. The three lookups raise nothing, so an error
  of \<open>get_payload()\<close> is the error of the call.
\<close>

definition parse_email ::
    "(string \<Rightarrow> error + 'o message) \<Rightarrow> (string \<Rightarrow> string \<Rightarrow> 'o) \<Rightarrow> string \<Rightarrow> string
       \<Rightarrow> error + 'o dict" where
  "parse_email message_from_string Header now raw_email =
     (case message_from_string raw_email of
        Inl e \<Rightarrow> Inl e
      | Inr msg \<Rightarrow>
          (case get_payload msg of
             Inl e \<Rightarrow> Inl e
           | Inr body \<Rightarrow>
               Inr [''from'' \<mapsto> message_getitem Header msg ''From'',
                    ''to'' \<mapsto> message_getitem Header msg ''To'',
                    ''subject'' \<mapsto> message_getitem Header msg ''Subject'',
                    ''body'' \<mapsto> body,
                    ''timestamp'' \<mapsto> PStr now]))"

subsection \<open>The classifier client\<close>

definition GOOGLE_AI_STUDIO_MODEL :: string where
  "GOOGLE_AI_STUDIO_MODEL = ''gemini-3-flash-preview''"

text \<open>
  The prompt is one f-string over three subscripts of \<open>email_data\<close>, evaluated left to
  right; a missing key raises \<open>KeyError\<close>. Lines are separated by a line feed.
\<close>

definition classify_prompt :: "('o \<Rightarrow> string) \<Rightarrow> 'o dict \<Rightarrow> error + string" where
  "classify_prompt str_obj email_data =
     (case getitem email_data ''from'' of
        Inl e \<Rightarrow> Inl e
      | Inr sender \<Rightarrow>
          (case getitem email_data ''subject'' of
             Inl e \<Rightarrow> Inl e
           | Inr subject \<Rightarrow>
               (case getitem email_data ''body'' of
                  Inl e \<Rightarrow> Inl e
                | Inr body \<Rightarrow>
                    Inr (''From: '' @ py_str str_obj sender @ [CHR 0x0A]
                         @ ''Subject: '' @ py_str str_obj subject @ [CHR 0x0A]
                         @ ''Body: '' @ py_str str_obj body @ [CHR 0x0A, CHR 0x0A]
                         @ ''Classify and route this email.''))))"

text \<open>
  The arguments of \<open>requests.post\<close>: the URL, the headers, the \<open>json=\<close> body and the query
  parameters. The API key is \<open>os.getenv(...)\<close>, which is \<open>None\<close> when the variable is unset.
\<close>

datatype json_value = JStr string | JList "json_value list" | JObj "(string \<times> json_value) list"

record request =
  post_url :: string
  post_headers :: "(string \<times> string) list"
  post_json :: json_value
  post_params :: "(string \<times> string option) list"

definition classify_request :: "string option \<Rightarrow> string \<Rightarrow> request" where
  "classify_request GOOGLE_AI_STUDIO_API prompt =
     \<lparr>post_url = ''https://generativelanguage.googleapis.com/v1beta/models/''
                  @ GOOGLE_AI_STUDIO_MODEL @ '':generateContent'',
      post_headers = [(''Content-Type'', ''application/json'')],
      post_json = JObj [(''contents'', JList [JObj [(''parts'', JList [JObj [(''text'', JStr prompt)]])]])],
      post_params = [(''key'', GOOGLE_AI_STUDIO_API)]\<rparr>"

text \<open>
  A \<open>Response\<close> carries its status code and what its \<open>json()\<close> method does: it returns
  the decoded body or raises when the body is not JSON. \<open>requests.post\<close> is the
  parameter \<open>post\<close>: it raises when no response arrives and returns the response
  otherwise, whatever its status. \<open>classify_email\<close> calls \<open>response.json()\<close> on what it
  gets; it never reads \<open>status_code\<close> and never calls \<open>raise_for_status()\<close>.
\<close>

record 'j response =
  status_code :: nat
  json :: "error + 'j"

definition classify_email ::
    "string option \<Rightarrow> (request \<Rightarrow> error + 'j response) \<Rightarrow> ('o \<Rightarrow> string) \<Rightarrow> 'o dict
       \<Rightarrow> error + 'j" where
  "classify_email GOOGLE_AI_STUDIO_API post str_obj email_data =
     (case classify_prompt str_obj email_data of
        Inl e \<Rightarrow> Inl e
      | Inr prompt \<Rightarrow>
          (case post (classify_request GOOGLE_AI_STUDIO_API prompt) of
             Inl e \<Rightarrow> Inl e
           | Inr response \<Rightarrow> json response))"

subsection \<open>The ledger stub and the action dispatcher\<close>

text \<open>
  \<open>store_routing_decision\<close> evaluates \<open>email_data['from']\<close> and then
  \<open>routing['target']\<close> inside one f-string; either subscript may raise, before anything
  is printed. It returns the line it printed.
\<close>

definition store_routing_decision ::
    "(string \<Rightarrow> error + unit) \<Rightarrow> ('o \<Rightarrow> string) \<Rightarrow> 'o dict \<Rightarrow> 'o dict \<Rightarrow> error + string list" where
  "store_routing_decision print str_obj email_data routing =
     (case getitem email_data ''from'' of
        Inl e \<Rightarrow> Inl e
      | Inr sender \<Rightarrow>
          (case getitem routing ''target'' of
             Inl e \<Rightarrow> Inl e
           | Inr target \<Rightarrow>
               print_line print
                 (''[LEDGER] '' @ py_str str_obj sender @ '' -> '' @ py_str str_obj target)))"

text \<open>
  \<open>execute_action\<close> returns the printed lines and the result dictionary, or the error
  its \<open>print\<close> raised. The comparison \<open>target == 'gemini_knight'\<close> is false for every
  value that is not that string. Only the first branch prints text of the input.
\<close>

definition execute_action ::
    "(string \<Rightarrow> error + unit) \<Rightarrow> ('o \<Rightarrow> string) \<Rightarrow> 'o dict \<Rightarrow> 'o dict
       \<Rightarrow> error + (string list \<times> 'o dict)" where
  "execute_action print str_obj routing email_data =
     (let target = dict_get routing ''target'';
          action = dict_get routing ''action'';
          printed =
            (if target = PStr ''gemini_knight'' then
               print_line print (''[ACTION] Routing to Gemini Knight: '' @ py_str str_obj action)
             else if target = PStr ''user'' then
               print_line print ''[ACTION] Sending summary to user''
             else if target = PStr ''lumo_architect'' then
               print_line print ''[ACTION] Querying Lumo for constraints''
             else Inr [])
      in case printed of
           Inl e \<Rightarrow> Inl e
         | Inr out \<Rightarrow> Inr (out, [''status'' \<mapsto> PStr ''executed'', ''target'' \<mapsto> target]))"

section \<open>agentcore-demo/agent.py\<close>

text \<open>The degree sign of the returned text is the two bytes \<open>C2 B0\<close> of its UTF-8 form.\<close>

definition get_weather :: "string \<Rightarrow> string" where
  "get_weather location =
     ''The weather in '' @ location @ '' is sunny and 72'' @ [CHR 0xC2, CHR 0xB0] @ ''F''"

text \<open>
  \<open>calculate_tip(bill_amount, tip_percentage=15.0)\<close> on floats. The divisor of
  \<open>tip_percentage / 100\<close> is the integer literal, converted to the float \<open>100.0\<close>.
\<close>

definition calculate_tip :: "pyfloat \<Rightarrow> pyfloat \<Rightarrow> error + string" where
  "calculate_tip bill_amount tip_percentage =
     (case float_truediv tip_percentage (PFin False 100) of
        Inl e \<Rightarrow> Inl e
      | Inr ratio \<Rightarrow>
          (let tip = float_mul bill_amount ratio;
               total = float_add bill_amount tip
           in Inr (''Bill: $'' @ format_2f bill_amount @ '', Tip ('' @ float_str tip_percentage
                   @ ''%): $'' @ format_2f tip @ '', Total: $'' @ format_2f total)))"

text \<open>
  The entrypoint. The hosted agent is outside the repository: constructing it and
  awaiting \<open>agent.invoke_async(user_message)\<close> is the parameter \<open>invoke_async\<close>, which
  returns the agent's response or raises; \<open>str_message response\<close> is
  \<open>str(response.message)\<close>.
\<close>

datatype tool = Tool_get_weather | Tool_calculate_tip

record agent =
  model :: string
  tools :: "tool list"

definition invoke ::
    "(agent \<Rightarrow> 'o pyval \<Rightarrow> error + 'r) \<Rightarrow> ('r \<Rightarrow> string) \<Rightarrow> 'o dict \<Rightarrow> 'c \<Rightarrow> error + 'o dict" where
  "invoke invoke_async str_message payload context =
     (let user_message = dict_get_default payload ''prompt'' (PStr ''Hello!'');
          agent = \<lparr>model = ''us.anthropic.claude-3-5-sonnet-20241022-v2:0'',
                   tools = [Tool_get_weather, Tool_calculate_tip]\<rparr>
      in case invoke_async agent user_message of
           Inl e \<Rightarrow> Inl e
         | Inr response \<Rightarrow> Inr [''response'' \<mapsto> PStr (str_message response)])"

section \<open>Properties of the parser\<close>

lemma message_get_find:
  "message_get Header hs name failobj =
     (case find (\<lambda>(k, v). str_lower k = name) hs of
        None \<Rightarrow> failobj
      | Some (k, v) \<Rightarrow> header_fetch_parse Header k v)"
  by (induction hs) (auto split: prod.splits)

lemma message_get_absent:
  "name \<notin> set (map (\<lambda>(k, v). str_lower k) hs) \<Longrightarrow>
     message_get Header hs name failobj = failobj"
  by (induction hs) auto

lemma str_lower_From: "str_lower ''From'' = ''from''"
  by (simp add: str_lower_def lower_char_def)

lemma str_lower_To: "str_lower ''To'' = ''to''"
  by (simp add: str_lower_def lower_char_def)

lemma str_lower_Subject: "str_lower ''Subject'' = ''subject''"
  by (simp add: str_lower_def lower_char_def)

lemma parse_email_returns:
  assumes "message_from_string raw_email = Inr msg"
      and "get_payload msg = Inr body"
  shows "parse_email message_from_string Header now raw_email =
           Inr [''from'' \<mapsto> message_getitem Header msg ''From'',
                ''to'' \<mapsto> message_getitem Header msg ''To'',
                ''subject'' \<mapsto> message_getitem Header msg ''Subject'',
                ''body'' \<mapsto> body,
                ''timestamp'' \<mapsto> PStr now]"
  using assms by (simp add: parse_email_def)

lemma parse_email_raises:
  assumes "message_from_string raw_email = Inr msg"
      and "get_payload msg = Inl e"
  shows "parse_email message_from_string Header now raw_email = Inl e"
  using assms by (simp add: parse_email_def)

lemma message_getitem_absent:
  assumes "str_lower name \<notin> set (header_names msg)"
  shows "message_getitem Header msg name = PNone"
  using assms by (simp add: message_getitem_def header_names_def message_get_absent)

text \<open>
  Claim C3, as the code has it. Take a text whose parsed message lacks a From, a To or
  a Subject header (no header of that name, compared without case). When
  \<open>get_payload()\<close> raises, \<open>parse_email\<close> raises the same error. When it returns,
  \<open>parse_email\<close> returns a dictionary with its five keys, and the field of the missing
  header is \<open>None\<close>, not the empty string.
\<close>

theorem parse_email_absent_header:
  assumes "message_from_string raw_email = Inr msg"
      and "name \<in> {''From'', ''To'', ''Subject''}"
      and "str_lower name \<notin> set (header_names msg)"
  shows "(\<forall>e. get_payload msg = Inl e \<longrightarrow>
            parse_email message_from_string Header now raw_email = Inl e)
         \<and> (\<forall>body. get_payload msg = Inr body \<longrightarrow>
              (\<exists>d. parse_email message_from_string Header now raw_email = Inr d
                   \<and> dom d = {''from'', ''to'', ''subject'', ''body'', ''timestamp''}
                   \<and> d (str_lower name) = Some PNone))"
proof (intro conjI allI impI)
  fix e
  assume "get_payload msg = Inl e"
  with assms(1) show "parse_email message_from_string Header now raw_email = Inl e"
    by (rule parse_email_raises)
next
  fix body
  assume body: "get_payload msg = Inr body"
  let ?d = "[''from'' \<mapsto> message_getitem Header msg ''From'',
             ''to'' \<mapsto> message_getitem Header msg ''To'',
             ''subject'' \<mapsto> message_getitem Header msg ''Subject'',
             ''body'' \<mapsto> body,
             ''timestamp'' \<mapsto> PStr now]"
  have ret: "parse_email message_from_string Header now raw_email = Inr ?d"
    using assms(1) body by (rule parse_email_returns)
  have keys: "dom ?d = {''from'', ''to'', ''subject'', ''body'', ''timestamp''}"
    by auto
  have none: "message_getitem Header msg name = PNone"
    using assms(3) by (rule message_getitem_absent)
  have field: "?d (str_lower name) = Some PNone"
    using assms(2) none
    by (auto simp: str_lower_From str_lower_To str_lower_Subject)
  from ret keys field
  show "\<exists>d. parse_email message_from_string Header now raw_email = Inr d
            \<and> dom d = {''from'', ''to'', ''subject'', ''body'', ''timestamp''}
            \<and> d (str_lower name) = Some PNone"
    by blast
qed

text \<open>A message whose only header is \<open>Subject: Hi\<close>: the sender is \<open>None\<close>.\<close>

theorem parse_email_absent_header_witness:
  "\<exists>d. parse_email
          (\<lambda>raw. Inr \<lparr>msg_headers = [(''Subject'', ''Hi'')],
                      get_payload = Inr (PStr ''body'' :: unit pyval)\<rparr>)
          (\<lambda>name v. ()) ''2026-01-01T00:00:00''
          (''Subject: Hi'' @ [CHR 0x0A, CHR 0x0A] @ ''body'') = Inr d
       \<and> d ''from'' = Some PNone"
proof -
  let ?msg = "\<lparr>msg_headers = [(''Subject'', ''Hi'')],
               get_payload = Inr (PStr ''body'' :: unit pyval)\<rparr>"
  have absent: "str_lower ''From'' \<notin> set (header_names ?msg)"
    by (simp add: header_names_def str_lower_def lower_char_def)
  have "\<exists>d. parse_email (\<lambda>raw. Inr ?msg) (\<lambda>name v. ()) ''2026-01-01T00:00:00''
               (''Subject: Hi'' @ [CHR 0x0A, CHR 0x0A] @ ''body'') = Inr d
            \<and> dom d = {''from'', ''to'', ''subject'', ''body'', ''timestamp''}
            \<and> d (str_lower ''From'') = Some PNone"
    using parse_email_absent_header
      [of "\<lambda>raw. Inr ?msg" "''Subject: Hi'' @ [CHR 0x0A, CHR 0x0A] @ ''body''" ?msg "''From''"
          "\<lambda>name v. ()" "''2026-01-01T00:00:00''", OF refl _ absent]
    by simp
  then show ?thesis
    by (auto simp: str_lower_From)
qed

text \<open>
  The claim as worded fails twice. On the text \<open>hello\<close>, which has no header line, the
  parser returns a message without headers whose payload is the whole text, and the
  sender field is \<open>None\<close>, which is not the empty string. On the text
  \<open>Content-Type: text/plain; charset*=utf-8''abc\<close>, an empty line and \<open>b\udce9dy\<close>, which
  has none of the three headers either, \<open>get_payload()\<close> raises \<open>TypeError\<close> and so does
  \<open>parse_email\<close>.
\<close>

theorem parse_email_absent_header_counterexample:
  "(\<exists>d. parse_email
           (\<lambda>raw. Inr \<lparr>msg_headers = [], get_payload = Inr (PStr raw :: unit pyval)\<rparr>)
           (\<lambda>name v. ()) ''2026-01-01T00:00:00'' ''hello'' = Inr d
        \<and> d ''from'' = Some PNone \<and> d ''from'' \<noteq> Some (PStr ''''))
   \<and> parse_email
         (\<lambda>raw. Inr \<lparr>msg_headers =
                        [(''Content-Type'',
                          ''text/plain; charset*=utf-8'' @ [CHR 0x27, CHR 0x27] @ ''abc'')],
                      get_payload = Inl TypeError :: error + unit pyval\<rparr>)
         (\<lambda>name v. ()) ''2026-01-01T00:00:00''
         (''Content-Type: text/plain; charset*=utf-8'' @ [CHR 0x27, CHR 0x27] @ ''abc''
            @ [CHR 0x0A, CHR 0x0A] @ ''b'' @ [CHR 0xED, CHR 0xB3, CHR 0xA9] @ ''dy'')
       = Inl TypeError"
  by (simp add: parse_email_def message_getitem_def)

text \<open>
  Claim C6, as the code has it. When the parsed message has a From and a Subject header
  and \<open>get_payload()\<close> returns, the sender and subject fields are what
  \<open>header_fetch_parse\<close> makes of the first From and the first Subject header: the
  header's value itself, a string, unless it carries surrogate-escaped bytes, and a
  \<open>Header\<close> object if it does. A string field is empty exactly when the value is.
\<close>

theorem parse_email_present_headers:
  assumes "message_from_string raw_email = Inr msg"
      and "find (\<lambda>(k, v). str_lower k = ''from'') (msg_headers msg) = Some (kf, sender)"
      and "find (\<lambda>(k, v). str_lower k = ''subject'') (msg_headers msg) = Some (ks, subject)"
      and "get_payload msg = Inr body"
  shows "\<exists>d. parse_email message_from_string Header now raw_email = Inr d
           \<and> d ''from'' =
               Some (if has_surrogates sender then PObj (Header kf sender) else PStr sender)
           \<and> d ''subject'' =
               Some (if has_surrogates subject then PObj (Header ks subject) else PStr subject)"
proof -
  have f: "message_getitem Header msg ''From'' = header_fetch_parse Header kf sender"
    using assms(2) by (simp add: message_getitem_def message_get_find str_lower_From)
  have s: "message_getitem Header msg ''Subject'' = header_fetch_parse Header ks subject"
    using assms(3) by (simp add: message_getitem_def message_get_find str_lower_Subject)
  show ?thesis
    using parse_email_returns
        [of message_from_string raw_email msg body Header now, OF assms(1) assms(4)] f s
    by (simp add: header_fetch_parse_def)
qed

text \<open>
  Two messages: one with plain values, under the names \<open>From\<close> and \<open>SUBJECT\<close>, and one
  whose subject \<open>h\udce9llo\<close> carries a surrogate-escaped byte and comes back as a
  \<open>Header\<close> object.
\<close>

theorem parse_email_present_headers_witness:
  "(\<exists>d. parse_email
           (\<lambda>raw. Inr \<lparr>msg_headers = [(''From'', ''a@example.org''), (''SUBJECT'', ''Hi'')],
                       get_payload = Inr (PStr ''body'' :: (string \<times> string) pyval)\<rparr>)
           Pair ''2026-01-01T00:00:00'' ''x'' = Inr d
        \<and> d ''from'' = Some (PStr ''a@example.org'') \<and> d ''subject'' = Some (PStr ''Hi''))
   \<and> (\<exists>d. parse_email
           (\<lambda>raw. Inr \<lparr>msg_headers =
                           [(''From'', ''a@example.org''),
                            (''Subject'', ''h'' @ [CHR 0xED, CHR 0xB3, CHR 0xA9] @ ''llo'')],
                       get_payload = Inr (PStr ''body'' :: (string \<times> string) pyval)\<rparr>)
           Pair ''2026-01-01T00:00:00'' ''x'' = Inr d
        \<and> d ''from'' = Some (PStr ''a@example.org'')
        \<and> d ''subject'' =
            Some (PObj (''Subject'', ''h'' @ [CHR 0xED, CHR 0xB3, CHR 0xA9] @ ''llo'')))"
proof
  let ?msg = "\<lparr>msg_headers = [(''From'', ''a@example.org''), (''SUBJECT'', ''Hi'')],
               get_payload = Inr (PStr ''body'' :: (string \<times> string) pyval)\<rparr>"
  have f: "find (\<lambda>(k, v). str_lower k = ''from'') (msg_headers ?msg)
             = Some (''From'', ''a@example.org'')"
    by (simp add: str_lower_def lower_char_def)
  have s: "find (\<lambda>(k, v). str_lower k = ''subject'') (msg_headers ?msg)
             = Some (''SUBJECT'', ''Hi'')"
    by (simp add: str_lower_def lower_char_def)
  show "\<exists>d. parse_email (\<lambda>raw. Inr ?msg) Pair ''2026-01-01T00:00:00'' ''x'' = Inr d
          \<and> d ''from'' = Some (PStr ''a@example.org'') \<and> d ''subject'' = Some (PStr ''Hi'')"
    using parse_email_present_headers
      [of "\<lambda>raw. Inr ?msg" "''x''" ?msg "''From''" "''a@example.org''" "''SUBJECT''" "''Hi''"
          "PStr ''body''" Pair "''2026-01-01T00:00:00''", OF refl f s]
    by simp
next
  let ?msg = "\<lparr>msg_headers =
                 [(''From'', ''a@example.org''),
                  (''Subject'', ''h'' @ [CHR 0xED, CHR 0xB3, CHR 0xA9] @ ''llo'')],
               get_payload = Inr (PStr ''body'' :: (string \<times> string) pyval)\<rparr>"
  have f: "find (\<lambda>(k, v). str_lower k = ''from'') (msg_headers ?msg)
             = Some (''From'', ''a@example.org'')"
    by (simp add: str_lower_def lower_char_def)
  have s: "find (\<lambda>(k, v). str_lower k = ''subject'') (msg_headers ?msg)
             = Some (''Subject'', ''h'' @ [CHR 0xED, CHR 0xB3, CHR 0xA9] @ ''llo'')"
    by (simp add: str_lower_def lower_char_def)
  show "\<exists>d. parse_email (\<lambda>raw. Inr ?msg) Pair ''2026-01-01T00:00:00'' ''x'' = Inr d
          \<and> d ''from'' = Some (PStr ''a@example.org'')
          \<and> d ''subject'' =
              Some (PObj (''Subject'', ''h'' @ [CHR 0xED, CHR 0xB3, CHR 0xA9] @ ''llo''))"
    using parse_email_present_headers
      [of "\<lambda>raw. Inr ?msg" "''x''" ?msg "''From''" "''a@example.org''" "''Subject''"
          "''h'' @ [CHR 0xED, CHR 0xB3, CHR 0xA9] @ ''llo''"
          "PStr ''body''" Pair "''2026-01-01T00:00:00''", OF refl f s]
    by simp
qed

text \<open>
  The claim as worded fails on a message that conforms to RFC 5322 (a Date and a From
  header, lines ended by CR LF) and whose Subject header is present with an empty
  value, which the RFC allows: the parser returns the three headers, the last with the
  value \<open>''\<close>, and the subject field is the empty string.
\<close>

theorem parse_email_present_headers_counterexample:
  "find (\<lambda>(k, v). str_lower k = ''subject'')
       [(''Date'', ''Fri, 06 Nov 2026 00:00:00 +0000''), (''From'', ''a@example.org''),
        (''Subject'', '''')] = Some (''Subject'', '''')
   \<and> parse_email
        (\<lambda>raw. Inr \<lparr>msg_headers =
                        [(''Date'', ''Fri, 06 Nov 2026 00:00:00 +0000''),
                         (''From'', ''a@example.org''), (''Subject'', '''')],
                    get_payload = Inr (PStr (''hi'' @ [CHR 0x0D, CHR 0x0A]) :: unit pyval)\<rparr>)
        (\<lambda>name v. ()) ''2026-01-01T00:00:00''
        (''Date: Fri, 06 Nov 2026 00:00:00 +0000'' @ [CHR 0x0D, CHR 0x0A]
           @ ''From: a@example.org'' @ [CHR 0x0D, CHR 0x0A]
           @ ''Subject:'' @ [CHR 0x0D, CHR 0x0A, CHR 0x0D, CHR 0x0A]
           @ ''hi'' @ [CHR 0x0D, CHR 0x0A])
      = Inr [''from'' \<mapsto> PStr ''a@example.org'',
             ''to'' \<mapsto> PNone,
             ''subject'' \<mapsto> PStr '''',
             ''body'' \<mapsto> PStr (''hi'' @ [CHR 0x0D, CHR 0x0A]),
             ''timestamp'' \<mapsto> PStr ''2026-01-01T00:00:00'']"
  by (simp add: parse_email_def message_getitem_def header_fetch_parse_def
      str_lower_def lower_char_def)

section \<open>Properties of the classifier client\<close>

lemma classify_prompt_present:
  assumes "email_data ''from'' = Some sender"
      and "email_data ''subject'' = Some subject"
      and "email_data ''body'' = Some body"
  shows "classify_prompt str_obj email_data =
           Inr (''From: '' @ py_str str_obj sender @ [CHR 0x0A]
                @ ''Subject: '' @ py_str str_obj subject @ [CHR 0x0A]
                @ ''Body: '' @ py_str str_obj body @ [CHR 0x0A, CHR 0x0A]
                @ ''Classify and route this email.'')"
  using assms by (simp add: classify_prompt_def getitem_def)

lemma sublist_in_appends:
  "sublist a (p @ a @ q)"
  "sublist b (p @ a @ q @ b @ r)"
  "sublist c (p @ a @ q @ b @ r @ c @ t)"
proof -
  show "sublist a (p @ a @ q)"
    by (rule sublist_appendI)
  have "p @ a @ q @ b @ r = (p @ a @ q) @ b @ r"
    by simp
  then show "sublist b (p @ a @ q @ b @ r)"
    by (metis sublist_appendI)
  have "p @ a @ q @ b @ r @ c @ t = (p @ a @ q @ b @ r) @ c @ t"
    by simp
  then show "sublist c (p @ a @ q @ b @ r @ c @ t)"
    by (metis sublist_appendI)
qed

text \<open>
  Claim C4. For an email record whose sender, subject and body are strings, the prompt
  contains each of the three as a contiguous run of its bytes, and that prompt is the
  text placed in the body of the request that \<open>classify_email\<close> posts.
\<close>

theorem classify_email_prompt_verbatim:
  assumes "email_data ''from'' = Some (PStr sender)"
      and "email_data ''subject'' = Some (PStr subject)"
      and "email_data ''body'' = Some (PStr body)"
  shows "\<exists>prompt. classify_prompt str_obj email_data = Inr prompt
           \<and> sublist sender prompt \<and> sublist subject prompt \<and> sublist body prompt
           \<and> classify_email api_key post str_obj email_data =
               (case post (classify_request api_key prompt) of
                  Inl e \<Rightarrow> Inl e
                | Inr response \<Rightarrow> json response)
           \<and> post_json (classify_request api_key prompt) =
               JObj [(''contents'', JList [JObj [(''parts'', JList [JObj [(''text'', JStr prompt)]])]])]"
proof -
  let ?prompt = "''From: '' @ sender @ [CHR 0x0A] @ ''Subject: '' @ subject @ [CHR 0x0A]
                   @ ''Body: '' @ body @ [CHR 0x0A, CHR 0x0A] @ ''Classify and route this email.''"
  have p: "classify_prompt str_obj email_data = Inr ?prompt"
    using classify_prompt_present [OF assms, of str_obj] by (simp add: py_str_def)
  have s1: "sublist sender ?prompt"
    by (rule sublist_in_appends(1))
  have "?prompt = ''From: '' @ sender @ ([CHR 0x0A] @ ''Subject: '') @ subject @ ([CHR 0x0A]
                   @ ''Body: '') @ body @ [CHR 0x0A, CHR 0x0A] @ ''Classify and route this email.''"
    by simp
  then have s2: "sublist subject ?prompt" and s3: "sublist body ?prompt"
    by (metis sublist_in_appends(2), metis sublist_in_appends(3))
  have c: "classify_email api_key post str_obj email_data =
             (case post (classify_request api_key ?prompt) of
                Inl e \<Rightarrow> Inl e
              | Inr response \<Rightarrow> json response)"
    by (simp add: classify_email_def p)
  have j: "post_json (classify_request api_key ?prompt) =
             JObj [(''contents'', JList [JObj [(''parts'', JList [JObj [(''text'', JStr ?prompt)]])]])]"
    by (simp add: classify_request_def)
  from p s1 s2 s3 c j show ?thesis
    by blast
qed

theorem classify_email_prompt_verbatim_witness:
  "\<exists>prompt. classify_prompt (\<lambda>u::unit. ''obj'')
        [''from'' \<mapsto> PStr ''a@example.org'', ''subject'' \<mapsto> PStr ''Hi'',
         ''body'' \<mapsto> PStr ''Hello''] = Inr prompt
     \<and> sublist ''a@example.org'' prompt \<and> sublist ''Hi'' prompt \<and> sublist ''Hello'' prompt"
  using classify_email_prompt_verbatim
    [of "[''from'' \<mapsto> PStr ''a@example.org'', ''subject'' \<mapsto> PStr ''Hi'',
          ''body'' \<mapsto> PStr ''Hello'']"
        "''a@example.org''" "''Hi''" "''Hello''" "\<lambda>u::unit. ''obj''" None
        "\<lambda>r. Inl RequestException :: error + unit response"]
  by auto

text \<open>
  Claim C2, as the code has it. When the POST completes with a response, whatever its
  status, also outside 200 to 299, \<open>classify_email\<close> returns what \<open>response.json()\<close>
  returns: the decoded body, or the decoder's error when the body is not JSON. The
  status code raises nothing.
\<close>

theorem classify_email_ignores_status:
  assumes "classify_prompt str_obj email_data = Inr prompt"
      and "post (classify_request api_key prompt) = Inr response"
      and "\<not> (200 \<le> status_code response \<and> status_code response < 300)"
  shows "classify_email api_key post str_obj email_data = json response"
  using assms by (simp add: classify_email_def)

theorem classify_email_ignores_status_witness:
  "classify_email (Some ''k'')
      (\<lambda>req. Inr \<lparr>status_code = 404, json = Inl JSONDecodeError :: error + unit\<rparr>)
      (\<lambda>u::unit. ''obj'')
      [''from'' \<mapsto> PStr ''a@example.org'', ''subject'' \<mapsto> PStr ''Hi'', ''body'' \<mapsto> PStr ''Hello'']
    = Inl JSONDecodeError"
  using classify_email_ignores_status
    [of "\<lambda>u::unit. ''obj''"
        "[''from'' \<mapsto> PStr ''a@example.org'', ''subject'' \<mapsto> PStr ''Hi'', ''body'' \<mapsto> PStr ''Hello'']"
        "''From: a@example.org'' @ [CHR 0x0A] @ ''Subject: Hi'' @ [CHR 0x0A] @ ''Body: Hello''
           @ [CHR 0x0A, CHR 0x0A] @ ''Classify and route this email.''"
        "\<lambda>req. Inr \<lparr>status_code = 404, json = Inl JSONDecodeError :: error + unit\<rparr>"
        "Some ''k''"
        "\<lparr>status_code = 404, json = Inl JSONDecodeError :: error + unit\<rparr>"]
  by (simp add: classify_prompt_def getitem_def py_str_def)

text \<open>
  The claim as worded fails on a response with status 500 whose body is the JSON object
  \<open>{"error": ...}\<close>: \<open>classify_email\<close> returns the decoded object and raises nothing.
\<close>

theorem classify_email_non_2xx_counterexample:
  "classify_email (Some ''k'')
      (\<lambda>req. Inr \<lparr>status_code = 500, json = Inr [''error'' \<mapsto> PObj ()]\<rparr>)
      (\<lambda>u::unit. ''obj'')
      [''from'' \<mapsto> PStr ''a@example.org'', ''subject'' \<mapsto> PStr ''Hi'', ''body'' \<mapsto> PStr ''Hello'']
    = Inr [''error'' \<mapsto> PObj ()]"
  by (simp add: classify_email_def classify_prompt_def getitem_def)

section \<open>Properties of the dispatcher and the ledger stub\<close>

lemma print_line_cases:
  "print_line print line = Inr out \<Longrightarrow> out = [line] \<and> print line = Inr ()"
  "print_line print line = Inl e \<Longrightarrow> print line = Inl e"
  by (auto simp: print_line_def split: sum.splits)

lemma execute_action_returned:
  assumes "execute_action print str_obj routing email_data = Inr (out, result)"
  shows "result = [''status'' \<mapsto> PStr ''executed'', ''target'' \<mapsto> dict_get routing ''target'']"
  using assms by (auto simp: execute_action_def Let_def split: sum.splits)

lemma execute_action_raised:
  assumes "execute_action print str_obj routing email_data = Inl e"
  shows "\<exists>line. print line = Inl e"
  using assms
  by (auto simp: execute_action_def Let_def split: sum.splits if_splits dest: print_line_cases(2))

lemma execute_action_print_ok:
  assumes "\<And>line. print line = Inr ()"
  shows "\<exists>out. execute_action print str_obj routing email_data =
           Inr (out, [''status'' \<mapsto> PStr ''executed'', ''target'' \<mapsto> dict_get routing ''target''])"
  using assms by (simp add: execute_action_def Let_def print_line_def)

lemma execute_action_no_branch:
  assumes "dict_get routing ''target'' \<noteq> PStr ''gemini_knight''"
      and "dict_get routing ''target'' \<noteq> PStr ''user''"
      and "dict_get routing ''target'' \<noteq> PStr ''lumo_architect''"
  shows "execute_action print str_obj routing email_data =
           Inr ([], [''status'' \<mapsto> PStr ''executed'', ''target'' \<mapsto> dict_get routing ''target''])"
  using assms by (simp add: execute_action_def Let_def)

text \<open>
  Claim C1, as the code has it. \<open>execute_action\<close> never returns a result that reports
  failure: whenever it returns, the status is \<open>executed\<close> and the target is the value
  of \<open>routing.get('target')\<close>, unchanged. It returns whenever \<open>print\<close> does, and always
  for a target that is none of the three, such as \<open>unknown_target\<close>, where nothing is
  printed. The one way it does not return is an error raised by \<open>print\<close>.
\<close>

theorem execute_action_executed_unless_print_raises:
  "(\<forall>out result. execute_action print str_obj routing email_data = Inr (out, result) \<longrightarrow>
        result ''status'' = Some (PStr ''executed'')
        \<and> result ''status'' \<noteq> Some (PStr ''failed'')
        \<and> result ''target'' = Some (dict_get routing ''target''))
   \<and> (\<forall>e. execute_action print str_obj routing email_data = Inl e \<longrightarrow>
          (\<exists>line. print line = Inl e))
   \<and> ((\<forall>line. print line = Inr ()) \<longrightarrow>
          (\<exists>out. execute_action print str_obj routing email_data =
             Inr (out, [''status'' \<mapsto> PStr ''executed'',
                        ''target'' \<mapsto> dict_get routing ''target''])))
   \<and> (dict_get routing ''target''
          \<notin> {PStr ''gemini_knight'', PStr ''user'', PStr ''lumo_architect''} \<longrightarrow>
          execute_action print str_obj routing email_data =
            Inr ([], [''status'' \<mapsto> PStr ''executed'',
                      ''target'' \<mapsto> dict_get routing ''target'']))
   \<and> execute_action print str_obj (routing(''target'' \<mapsto> PStr ''unknown_target'')) email_data
        = Inr ([], [''status'' \<mapsto> PStr ''executed'', ''target'' \<mapsto> PStr ''unknown_target''])"
proof (intro conjI allI impI)
  fix out result
  assume "execute_action print str_obj routing email_data = Inr (out, result)"
  then have r: "result = [''status'' \<mapsto> PStr ''executed'',
                          ''target'' \<mapsto> dict_get routing ''target'']"
    by (rule execute_action_returned)
  show "result ''status'' = Some (PStr ''executed'')"
    and "result ''status'' \<noteq> Some (PStr ''failed'')"
    and "result ''target'' = Some (dict_get routing ''target'')"
    by (simp_all add: r)
next
  fix e
  assume "execute_action print str_obj routing email_data = Inl e"
  then show "\<exists>line. print line = Inl e"
    by (rule execute_action_raised)
next
  assume "\<forall>line. print line = Inr ()"
  then show "\<exists>out. execute_action print str_obj routing email_data =
               Inr (out, [''status'' \<mapsto> PStr ''executed'',
                          ''target'' \<mapsto> dict_get routing ''target''])"
    by (intro execute_action_print_ok) simp
next
  assume "dict_get routing ''target''
            \<notin> {PStr ''gemini_knight'', PStr ''user'', PStr ''lumo_architect''}"
  then show "execute_action print str_obj routing email_data =
               Inr ([], [''status'' \<mapsto> PStr ''executed'',
                         ''target'' \<mapsto> dict_get routing ''target''])"
    by (intro execute_action_no_branch) simp_all
next
  have t: "dict_get (routing(''target'' \<mapsto> PStr ''unknown_target'')) ''target''
             = PStr ''unknown_target''"
    by (simp add: dict_get_def dict_get_default_def)
  show "execute_action print str_obj (routing(''target'' \<mapsto> PStr ''unknown_target'')) email_data
          = Inr ([], [''status'' \<mapsto> PStr ''executed'', ''target'' \<mapsto> PStr ''unknown_target''])"
    using execute_action_no_branch
      [of "routing(''target'' \<mapsto> PStr ''unknown_target'')" print str_obj email_data]
    by (simp add: t)
qed

text \<open>
  With a standard output that takes every line, the target \<open>user\<close> gives a result that
  says \<open>executed\<close>; with UTF-8 output, the target \<open>archive\<close> prints nothing and gives the
  same.
\<close>

theorem execute_action_executed_unless_print_raises_witness:
  "(\<exists>out. execute_action (\<lambda>line. Inr ()) (\<lambda>u::unit. ''obj'')
             [''target'' \<mapsto> PStr ''user''] Map.empty
           = Inr (out, [''status'' \<mapsto> PStr ''executed'', ''target'' \<mapsto> PStr ''user'']))
   \<and> execute_action print_utf8 (\<lambda>u::unit. ''obj'') [''target'' \<mapsto> PStr ''archive''] Map.empty
       = Inr ([], [''status'' \<mapsto> PStr ''executed'', ''target'' \<mapsto> PStr ''archive''])"
proof
  have "\<forall>line. (\<lambda>line. Inr () :: error + unit) line = Inr ()"
    by simp
  then have "\<exists>out. execute_action (\<lambda>line. Inr ()) (\<lambda>u::unit. ''obj'')
                     [''target'' \<mapsto> PStr ''user''] Map.empty
               = Inr (out, [''status'' \<mapsto> PStr ''executed'',
                            ''target'' \<mapsto> dict_get [''target'' \<mapsto> PStr ''user''] ''target''])"
    using execute_action_executed_unless_print_raises
      [of "\<lambda>line. Inr ()" "\<lambda>u::unit. ''obj''" "[''target'' \<mapsto> PStr ''user'']" Map.empty]
    by blast
  then show "\<exists>out. execute_action (\<lambda>line. Inr ()) (\<lambda>u::unit. ''obj'')
                    [''target'' \<mapsto> PStr ''user''] Map.empty
              = Inr (out, [''status'' \<mapsto> PStr ''executed'', ''target'' \<mapsto> PStr ''user''])"
    by (simp add: dict_get_def dict_get_default_def)
next
  have t: "dict_get [''target'' \<mapsto> PStr ''archive'' :: unit pyval] ''target'' = PStr ''archive''"
    by (simp add: dict_get_def dict_get_default_def)
  then have "dict_get [''target'' \<mapsto> PStr ''archive'' :: unit pyval] ''target''
               \<notin> {PStr ''gemini_knight'', PStr ''user'', PStr ''lumo_architect''}"
    by simp
  then have "execute_action print_utf8 (\<lambda>u::unit. ''obj'')
                 [''target'' \<mapsto> PStr ''archive''] Map.empty
               = Inr ([], [''status'' \<mapsto> PStr ''executed'',
                           ''target'' \<mapsto> dict_get [''target'' \<mapsto> PStr ''archive''] ''target''])"
    using execute_action_executed_unless_print_raises
      [of print_utf8 "\<lambda>u::unit. ''obj''" "[''target'' \<mapsto> PStr ''archive'']" Map.empty]
    by blast
  then show "execute_action print_utf8 (\<lambda>u::unit. ''obj'')
                [''target'' \<mapsto> PStr ''archive''] Map.empty
              = Inr ([], [''status'' \<mapsto> PStr ''executed'', ''target'' \<mapsto> PStr ''archive''])"
    by (simp add: t)
qed

text \<open>
  The claim as worded fails on the routing dictionary
  \<open>{'target': 'gemini_knight', 'action': '\ud800'}\<close>, which is what \<open>json.loads\<close> makes
  of \<open>{"target": "gemini_knight", "action": "\ud800"}\<close>: with UTF-8 output the \<open>print\<close> of
  the first branch raises \<open>UnicodeEncodeError\<close>, and no result is returned.
\<close>

theorem execute_action_lone_surrogate_counterexample:
  "execute_action print_utf8 (\<lambda>u::unit. ''obj'')
     [''target'' \<mapsto> PStr ''gemini_knight'', ''action'' \<mapsto> PStr [CHR 0xED, CHR 0xA0, CHR 0x80]]
     Map.empty
   = Inl UnicodeEncodeError"
  by (simp add: execute_action_def Let_def dict_get_def dict_get_default_def py_str_def
      print_line_def print_utf8_def)

text \<open>
  Claim C5, as the code has it. When the routing target is \<open>gemini_knight\<close>, the
  Gemini-Knight branch runs: the one line printed is its line, carrying the action. When
  that \<open>print\<close> returns, the result's target is \<open>gemini_knight\<close>; when it raises, the
  error is the outcome and there is no result.
\<close>

theorem execute_action_gemini_knight:
  assumes "routing ''target'' = Some (PStr ''gemini_knight'')"
  shows "execute_action print str_obj routing email_data =
           (case print (''[ACTION] Routing to Gemini Knight: ''
                          @ py_str str_obj (dict_get routing ''action'')) of
              Inl e \<Rightarrow> Inl e
            | Inr u \<Rightarrow>
                Inr ([''[ACTION] Routing to Gemini Knight: ''
                        @ py_str str_obj (dict_get routing ''action'')],
                     [''status'' \<mapsto> PStr ''executed'', ''target'' \<mapsto> PStr ''gemini_knight'']))"
proof -
  from assms have "dict_get routing ''target'' = PStr ''gemini_knight''"
    by (simp add: dict_get_def dict_get_default_def)
  then show ?thesis
    by (simp add: execute_action_def Let_def print_line_def split: sum.splits)
qed

theorem execute_action_gemini_knight_witness:
  "execute_action print_utf8 (\<lambda>u::unit. ''obj'')
       [''target'' \<mapsto> PStr ''gemini_knight'', ''action'' \<mapsto> PStr ''heal''] Map.empty =
     Inr ([''[ACTION] Routing to Gemini Knight: heal''],
          [''status'' \<mapsto> PStr ''executed'', ''target'' \<mapsto> PStr ''gemini_knight''])"
  using execute_action_gemini_knight
    [of "[''target'' \<mapsto> PStr ''gemini_knight'', ''action'' \<mapsto> PStr ''heal'']"
        print_utf8 "\<lambda>u::unit. ''obj''" Map.empty]
  by (simp add: dict_get_def dict_get_default_def py_str_def print_utf8_def)

text \<open>
  The claim as worded fails on the routing dictionary
  \<open>{'target': 'gemini_knight', 'action': 'restart \<rightarrow> db'}\<close> when standard output is
  encoded as ASCII: the arrow (bytes \<open>E2 86 92\<close>) cannot be encoded, the \<open>print\<close> of the
  branch raises \<open>UnicodeEncodeError\<close>, and no result is returned.
\<close>

theorem execute_action_gemini_knight_counterexample:
  "execute_action print_ascii (\<lambda>u::unit. ''obj'')
     [''target'' \<mapsto> PStr ''gemini_knight'',
      ''action'' \<mapsto> PStr (''restart '' @ [CHR 0xE2, CHR 0x86, CHR 0x92] @ '' db'')]
     Map.empty
   = Inl UnicodeEncodeError"
  by (simp add: execute_action_def Let_def dict_get_def dict_get_default_def py_str_def
      print_line_def print_ascii_def)

text \<open>
  Claim C9. On a routing dictionary without the key \<open>target\<close> the ledger stub raises
  \<open>KeyError\<close> (for \<open>target\<close> itself once \<open>email_data\<close> has its \<open>from\<close> key, as every
  record built by the parser has), while \<open>execute_action\<close> on the same dictionary
  returns normally, with target \<open>None\<close>. Neither path prints.
\<close>

theorem store_routing_decision_missing_target:
  assumes "routing ''target'' = None"
  shows "(\<exists>k. store_routing_decision print str_obj email_data routing = Inl (KeyError k))
         \<and> (\<forall>sender. email_data ''from'' = Some sender \<longrightarrow>
               store_routing_decision print str_obj email_data routing = Inl (KeyError ''target''))
         \<and> execute_action print str_obj routing email_data =
             Inr ([], [''status'' \<mapsto> PStr ''executed'', ''target'' \<mapsto> PNone])"
proof (intro conjI allI impI)
  show "\<exists>k. store_routing_decision print str_obj email_data routing = Inl (KeyError k)"
    using assms
    by (cases "email_data ''from''") (simp_all add: store_routing_decision_def getitem_def)
next
  fix sender
  assume "email_data ''from'' = Some sender"
  with assms
  show "store_routing_decision print str_obj email_data routing = Inl (KeyError ''target'')"
    by (simp add: store_routing_decision_def getitem_def)
next
  from assms have "dict_get routing ''target'' = PNone"
    by (simp add: dict_get_def dict_get_default_def)
  then show "execute_action print str_obj routing email_data =
               Inr ([], [''status'' \<mapsto> PStr ''executed'', ''target'' \<mapsto> PNone])"
    by (simp add: execute_action_def Let_def)
qed

theorem store_routing_decision_missing_target_witness:
  "store_routing_decision print_utf8 (\<lambda>u::unit. ''obj'')
       [''from'' \<mapsto> PStr ''a@example.org''] [''action'' \<mapsto> PStr ''heal'']
     = Inl (KeyError ''target'')
   \<and> execute_action print_utf8 (\<lambda>u::unit. ''obj'') [''action'' \<mapsto> PStr ''heal'']
       [''from'' \<mapsto> PStr ''a@example.org'']
     = Inr ([], [''status'' \<mapsto> PStr ''executed'', ''target'' \<mapsto> PNone])"
  using store_routing_decision_missing_target
    [of "[''action'' \<mapsto> PStr ''heal'']" print_utf8 "\<lambda>u::unit. ''obj''"
        "[''from'' \<mapsto> PStr ''a@example.org'']"]
  by simp

section \<open>Properties of the agent's tools\<close>

text \<open>
  Claim C8. \<open>get_weather('Paris')\<close> is the text
  \<open>The weather in Paris is sunny and 72\<degree>F\<close>, which contains \<open>Paris\<close> and \<open>sunny\<close>.
\<close>

theorem get_weather_Paris:
  "sublist ''Paris'' (get_weather ''Paris'') \<and> sublist ''sunny'' (get_weather ''Paris'')"
proof
  have "get_weather ''Paris'' = ''The weather in '' @ ''Paris'' @ '' is sunny and 72''
          @ [CHR 0xC2, CHR 0xB0] @ ''F''"
    by (simp add: get_weather_def)
  then show "sublist ''Paris'' (get_weather ''Paris'')"
    by (metis sublist_appendI)
next
  have "get_weather ''Paris'' = ''The weather in Paris is '' @ ''sunny'' @ '' and 72''
          @ [CHR 0xC2, CHR 0xB0] @ ''F''"
    by (simp add: get_weather_def)
  then show "sublist ''sunny'' (get_weather ''Paris'')"
    by (metis sublist_appendI)
qed

subsection \<open>Evaluating the float operations\<close>

lemma floor_rat_numeral_div: "\<lfloor>numeral a / numeral b :: rat\<rfloor> = numeral a div numeral b"
  by (metis floor_divide_of_int_eq of_int_numeral)

lemmas round_eval = Let_def pow_def round_half_even_def floor_rat_numeral_div

text \<open>
  The model on known values of binary64: \<open>0.1\<close> is \<open>0x3FB999999999999A\<close>, the sum
  \<open>0.1 + 0.2\<close> is \<open>0x3FD3333333333334\<close>, one unit above the float \<open>0.3\<close>, and \<open>.2f\<close>
  rounds the exact ties \<open>0.125\<close> and \<open>0.375\<close> to the even digit.
\<close>

lemma ilog2_tenth: "ilog 2 (1 / 10) = - 4"
  by (simp add: ilog_def pow_def Let_def)

lemma round_double_tenth:
  "round_double False (1 / 10) = PFin False (3602879701896397 / 36028797018963968)"
  by (simp add: round_double_def ilog2_tenth round_eval)

lemma ilog2_tenth_plus_fifth:
  "ilog 2 (3602879701896397 / 36028797018963968 + 3602879701896397 / 18014398509481984) = - 2"
  by (simp add: ilog_def round_eval)

lemma float_add_tenth_fifth:
  "float_add (PFin False (3602879701896397 / 36028797018963968))
             (PFin False (3602879701896397 / 18014398509481984))
     = PFin False (1351079888211149 / 4503599627370496)"
proof -
  have "round_double False
          (3602879701896397 / 36028797018963968 + 3602879701896397 / 18014398509481984)
          = PFin False (1351079888211149 / 4503599627370496)"
    unfolding round_double_def ilog2_tenth_plus_fifth by (simp add: round_eval)
  then show ?thesis
    by (simp add: signed_def)
qed

lemma ilog2_three_tenths: "ilog 2 (3 / 10) = - 2"
  by (simp add: ilog_def round_eval)

lemma round_double_three_tenths:
  "round_double False (3 / 10) = PFin False (5404319552844595 / 18014398509481984)"
  unfolding round_double_def ilog2_three_tenths by (simp add: round_eval)

lemma format_2f_ties_to_even:
  "format_2f (PFin False (1 / 8)) = ''0.12''"
  "format_2f (PFin False (3 / 8)) = ''0.38''"
  by (simp_all add: format_2f_def round_half_even_def Let_def sign_str_def digit_char_def
      floor_rat_numeral_div)

text \<open>\<open>20.0 / 100\<close> is the float nearest to one fifth, \<open>0x3FC999999999999A\<close>.\<close>

lemma ilog2_fifth: "ilog 2 (1 / 5) = - 3"
  by (simp add: ilog_def pow_def Let_def)

lemma round_double_fifth:
  "round_double False (20 / 100) = PFin False (3602879701896397 / 18014398509481984)"
  by (simp add: round_double_def ilog2_fifth round_eval)

text \<open>\<open>100.0\<close> times that float is \<open>20\<close> plus \<open>2 ^ -50\<close>, which rounds to \<open>20.0\<close>.\<close>

lemma ilog2_tip: "ilog 2 (100 * (3602879701896397 / 18014398509481984)) = 4"
  by (simp add: ilog_def round_eval)

lemma round_double_tip:
  "round_double False (100 * (3602879701896397 / 18014398509481984)) = PFin False 20"
  unfolding round_double_def ilog2_tip by (simp add: round_eval)

lemma ilog2_120: "ilog 2 120 = 6"
  by (simp add: ilog_def round_eval)

lemma round_double_120: "round_double False 120 = PFin False 120"
  unfolding round_double_def ilog2_120 by (simp add: round_eval)

lemma ilog2_20: "ilog 2 20 = 4"
  by (simp add: ilog_def round_eval)

lemma round_double_20: "round_double False 20 = PFin False 20"
  unfolding round_double_def ilog2_20 by (simp add: round_eval)

lemma ilog2_30: "ilog 2 30 = 4"
  by (simp add: ilog_def round_eval)

lemma round_double_30: "round_double False 30 = PFin False 30"
  unfolding round_double_def ilog2_30 by (simp add: round_eval)

lemma format_2f_100: "format_2f (PFin False 100) = ''100.00''"
  by (simp add: format_2f_def round_half_even_def Let_def sign_str_def digit_char_def)

lemma format_2f_20: "format_2f (PFin False 20) = ''20.00''"
  by (simp add: format_2f_def round_half_even_def Let_def sign_str_def digit_char_def)

lemma format_2f_120: "format_2f (PFin False 120) = ''120.00''"
  by (simp add: format_2f_def round_half_even_def Let_def sign_str_def digit_char_def)

text \<open>One digit is enough for \<open>20.0\<close>: \<open>2 * 10\<close> rounds back to it.\<close>

lemma ilog10_20: "ilog 10 20 = 1"
  by (simp add: ilog_def)

lemma candidate_20: "candidate 20 1 = Some (2, 1)"
  unfolding candidate_def ilog10_20
  by (simp add: Let_def pow_def round_double_20 round_double_30)

lemma shortest_20: "shortest 20 [1 ..< 18] = (2, 1)"
proof -
  have "[1 ..< 18] = 1 # [2 ..< 18]"
    by (simp add: upt_conv_Cons)
  then show ?thesis
    by (simp only: shortest.simps candidate_20 option.case)
qed

lemma float_str_20: "float_str (PFin False 20) = ''20.0''"
  by (simp add: float_str_def shortest_20 [simplified] sign_str_def repr_layout_def
      strip_zeros_def digit_char_def)

lemma calculate_tip_value_100_20:
  "calculate_tip (PFin False 100) (PFin False 20)
     = Inr ''Bill: $100.00, Tip (20.0%): $20.00, Total: $120.00''"
proof -
  have d: "float_truediv (PFin False 20) (PFin False 100)
             = Inr (PFin False (3602879701896397 / 18014398509481984))"
    unfolding float_truediv.simps using round_double_fifth by simp
  have m: "float_mul (PFin False 100) (PFin False (3602879701896397 / 18014398509481984))
             = PFin False 20"
    unfolding float_mul.simps using round_double_tip by simp
  have a: "float_add (PFin False 100) (PFin False 20) = PFin False 120"
    using round_double_120 by (simp add: signed_def)
  show ?thesis
    unfolding calculate_tip_def d sum.case Let_def m a format_2f_100 format_2f_20
      format_2f_120 float_str_20
    by simp
qed

text \<open>
  Claim C7. \<open>calculate_tip(100.0, 20.0)\<close> returns
  \<open>Bill: $100.00, Tip (20.0%): $20.00, Total: $120.00\<close>, which contains
  \<open>Tip (20.0%): $20.00\<close> and \<open>Total: $120.00\<close>.
\<close>

theorem calculate_tip_100_20:
  "\<exists>s. calculate_tip (PFin False 100) (PFin False 20) = Inr s
       \<and> s = ''Bill: $100.00, Tip (20.0%): $20.00, Total: $120.00''
       \<and> sublist ''Tip (20.0%): $20.00'' s
       \<and> sublist ''Total: $120.00'' s"
proof -
  let ?s = "''Bill: $100.00, Tip (20.0%): $20.00, Total: $120.00''"
  have "?s = ''Bill: $100.00, '' @ ''Tip (20.0%): $20.00'' @ '', Total: $120.00''"
    by simp
  then have 1: "sublist ''Tip (20.0%): $20.00'' ?s"
    by (metis sublist_appendI)
  have "?s = ''Bill: $100.00, Tip (20.0%): $20.00, '' @ ''Total: $120.00'' @ ''''"
    by simp
  then have 2: "sublist ''Total: $120.00'' ?s"
    by (metis sublist_appendI)
  from calculate_tip_value_100_20 1 2 show ?thesis
    by blast
qed

subsection \<open>The entrypoint\<close>

text \<open>
  Claim C10, as the code has it. On a payload without the key \<open>prompt\<close> the guarded lookup raises nothing
  and yields \<open>Hello!\<close>: \<open>invoke\<close> behaves as on the same payload with \<open>prompt\<close> set to
  \<open>Hello!\<close>. That string is the message handed to the hosted agent, and \<open>invoke\<close>
  returns the agent's answer wrapped as \<open>{response: ...}\<close>. The only failure \<open>invoke\<close>
  can then report is one the agent call itself raises.
\<close>

theorem invoke_default_prompt:
  assumes "payload ''prompt'' = None"
  shows "dict_get_default payload ''prompt'' (PStr ''Hello!'') = PStr ''Hello!''
         \<and> invoke invoke_async str_message payload context =
             invoke invoke_async str_message (payload(''prompt'' \<mapsto> PStr ''Hello!'')) context
         \<and> invoke invoke_async str_message payload context =
             (case invoke_async
                     \<lparr>model = ''us.anthropic.claude-3-5-sonnet-20241022-v2:0'',
                      tools = [Tool_get_weather, Tool_calculate_tip]\<rparr>
                     (PStr ''Hello!'') of
                Inl e \<Rightarrow> Inl e
              | Inr response \<Rightarrow> Inr [''response'' \<mapsto> PStr (str_message response)])"
  using assms by (simp add: invoke_def dict_get_default_def)

theorem invoke_default_prompt_witness:
  "invoke (\<lambda>a m. Inr (py_str (\<lambda>u::unit. ''obj'') m)) (\<lambda>r. ''echo: '' @ r) Map.empty ()
     = Inr [''response'' \<mapsto> PStr ''echo: Hello!'']"
proof -
  have absent: "(Map.empty :: unit dict) ''prompt'' = None"
    by simp
  have "invoke (\<lambda>a m. Inr (py_str (\<lambda>u::unit. ''obj'') m)) (\<lambda>r. ''echo: '' @ r) Map.empty ()
          = (case Inr (py_str (\<lambda>u::unit. ''obj'') (PStr ''Hello!'')) :: error + string of
               Inl e \<Rightarrow> Inl e
             | Inr response \<Rightarrow> Inr [''response'' \<mapsto> PStr (''echo: '' @ response)])"
    using invoke_default_prompt
      [OF absent, of "\<lambda>a m. Inr (py_str (\<lambda>u::unit. ''obj'') m)" "\<lambda>r. ''echo: '' @ r" "()"]
    by blast
  then show ?thesis
    by (simp add: py_str_def)
qed

text \<open>
  The claim as worded fails when the hosted agent's call raises: on the empty payload
  \<open>invoke\<close> forwards \<open>Hello!\<close> and then fails with the agent's error.
\<close>

theorem invoke_agent_raises_counterexample:
  "invoke (\<lambda>a m. Inl AgentError :: error + string) (\<lambda>r. r) (Map.empty :: unit dict) ()
     = Inl AgentError"
  by (simp add: invoke_def)

end
